theory Spec2Isabelle
  imports Complex_Main
begin

section \<open>JavaScript numbers\<close>

text \<open>
  The analytics engine (\<^verbatim>\<open>CreditAnalyticsEngine\<close>) computes with the \<^verbatim>\<open>number\<close> type of
  TypeScript. A number is modelled as an exact real or one of the three special values
  that a division by zero produces. The sum, product and quotient of finite numbers are
  the exact ones: the rounding of a result to the binary representation, its overflow to
  Infinity and the sign of zero are not part of the model, and a zero divisor is taken as
  \<open>+0\<close>. The model computes what the engine computes wherever the engine's arithmetic is
  exact, as it is on the integer fields of the examples below.
\<close>

datatype number = Num real | Infinity | NegInfinity | NaN

fun isFinite :: "number \<Rightarrow> bool" where
  "isFinite (Num a) = True"
| "isFinite Infinity = False"
| "isFinite NegInfinity = False"
| "isFinite NaN = False"

text \<open>The infinity (or NaN) with the sign of \<open>s\<close>.\<close>

definition inf_of_sign :: "real \<Rightarrow> number" where
  "inf_of_sign s = (if 0 < s then Infinity else if s < 0 then NegInfinity else NaN)"

fun js_sign :: "number \<Rightarrow> real" where
  "js_sign (Num a) = sgn a"
| "js_sign Infinity = 1"
| "js_sign NegInfinity = - 1"
| "js_sign NaN = 0"

fun js_neg :: "number \<Rightarrow> number" where
  "js_neg (Num a) = Num (- a)"
| "js_neg Infinity = NegInfinity"
| "js_neg NegInfinity = Infinity"
| "js_neg NaN = NaN"

fun js_add :: "number \<Rightarrow> number \<Rightarrow> number" where
  "js_add (Num a) (Num b) = Num (a + b)"
| "js_add NaN _ = NaN"
| "js_add _ NaN = NaN"
| "js_add Infinity NegInfinity = NaN"
| "js_add NegInfinity Infinity = NaN"
| "js_add Infinity _ = Infinity"
| "js_add _ Infinity = Infinity"
| "js_add NegInfinity _ = NegInfinity"
| "js_add _ NegInfinity = NegInfinity"

definition js_sub :: "number \<Rightarrow> number \<Rightarrow> number" where
  "js_sub x y = js_add x (js_neg y)"

fun js_mul :: "number \<Rightarrow> number \<Rightarrow> number" where
  "js_mul (Num a) (Num b) = Num (a * b)"
| "js_mul NaN _ = NaN"
| "js_mul _ NaN = NaN"
| "js_mul x y = inf_of_sign (js_sign x * js_sign y)"

fun js_div :: "number \<Rightarrow> number \<Rightarrow> number" where
  "js_div (Num a) (Num b) = (if b = 0 then inf_of_sign (sgn a) else Num (a / b))"
| "js_div NaN _ = NaN"
| "js_div _ NaN = NaN"
| "js_div (Num a) _ = Num 0"
| "js_div x (Num b) = inf_of_sign (js_sign x * (if b < 0 then - 1 else 1))"
| "js_div _ _ = NaN"

fun js_lt :: "number \<Rightarrow> number \<Rightarrow> bool" where
  "js_lt (Num a) (Num b) = (a < b)"
| "js_lt NaN _ = False"
| "js_lt _ NaN = False"
| "js_lt NegInfinity NegInfinity = False"
| "js_lt NegInfinity _ = True"
| "js_lt _ NegInfinity = False"
| "js_lt Infinity _ = False"
| "js_lt _ Infinity = True"

definition js_gt :: "number \<Rightarrow> number \<Rightarrow> bool" where
  "js_gt x y = js_lt y x"

text \<open>\<^verbatim>\<open>x >= y\<close>: false as soon as one side is NaN.\<close>

definition js_ge :: "number \<Rightarrow> number \<Rightarrow> bool" where
  "js_ge x y = (js_lt y x \<or> (x = y \<and> x \<noteq> NaN))"

fun Math_max :: "number \<Rightarrow> number \<Rightarrow> number" where
  "Math_max NaN _ = NaN"
| "Math_max _ NaN = NaN"
| "Math_max x y = (if js_lt x y then y else x)"

fun Math_min :: "number \<Rightarrow> number \<Rightarrow> number" where
  "Math_min NaN _ = NaN"
| "Math_min _ NaN = NaN"
| "Math_min x y = (if js_lt y x then y else x)"

fun Math_abs :: "number \<Rightarrow> number" where
  "Math_abs (Num a) = Num \<bar>a\<bar>"
| "Math_abs Infinity = Infinity"
| "Math_abs NegInfinity = Infinity"
| "Math_abs NaN = NaN"

text \<open>\<^verbatim>\<open>Math.round\<close> rounds to the nearest integer, a half towards \<open>+\<infinity>\<close>.\<close>

fun Math_round :: "number \<Rightarrow> number" where
  "Math_round (Num a) = Num (of_int \<lfloor>a + 1 / 2\<rfloor>)"
| "Math_round x = x"

section \<open>Data model (\<^verbatim>\<open>types/analytics\<close>)\<close>

datatype RiskCategory = Low | Medium | High

record RiskFactors =
  creditScore :: number
  income :: number
  paymentHistory :: number
  utilizationRate :: number
  accountAge :: number
  fraudAlerts :: number
  transactionPattern :: number
  avgTransactionAmount :: number

record SegmentAnalysis =
  segment :: string
  customers :: number
  avgIncome :: number
  avgRiskScore :: number
  revenue :: number
  growthRate :: number
  percentage :: number

record Recommendation =
  type :: string
  priority :: string
  message :: string

record MonthlyTrend =
  month :: string
  newCustomers :: number
  totalRevenue :: number
  avgRiskScore :: number

text \<open>
  The field \<^verbatim>\<open>id\<close> is written \<open>id'\<close>; every other field keeps its name. Where two
  records have a field of the same name, the plain name is the field of \<open>Customer\<close> and
  the others are written with their record's name.
\<close>

record Customer =
  id' :: string
  name :: string
  age :: number
  income :: number
  creditScore :: number
  accountBalance :: number
  transactionCount :: number
  avgTransactionAmount :: number
  riskScore :: number
  riskCategory :: RiskCategory
  segment :: string
  city :: string
  state :: string
  joinDate :: string
  lastTransactionDate :: string
  fraudAlerts :: number
  paymentHistory :: number
  utilizationRate :: number
  accountAge :: number

text \<open>The customer has all its numeric fields finite, as the engine assumes of its input.\<close>

definition finiteCustomer :: "Customer \<Rightarrow> bool" where
  "finiteCustomer c =
    (isFinite (age c) \<and> isFinite (income c) \<and> isFinite (creditScore c) \<and>
     isFinite (accountBalance c) \<and> isFinite (transactionCount c) \<and>
     isFinite (avgTransactionAmount c) \<and> isFinite (riskScore c) \<and>
     isFinite (fraudAlerts c) \<and> isFinite (paymentHistory c) \<and>
     isFinite (utilizationRate c) \<and> isFinite (accountAge c))"

text \<open>The input fields, that is all fields but the three derived ones, agree.\<close>

definition sameInputFields :: "Customer \<Rightarrow> Customer \<Rightarrow> bool" where
  "sameInputFields c d =
    (id' d = id' c \<and> name d = name c \<and> age d = age c \<and> income d = income c \<and>
     creditScore d = creditScore c \<and> accountBalance d = accountBalance c \<and>
     transactionCount d = transactionCount c \<and>
     avgTransactionAmount d = avgTransactionAmount c \<and> city d = city c \<and>
     state d = state c \<and> joinDate d = joinDate c \<and>
     lastTransactionDate d = lastTransactionDate c \<and> fraudAlerts d = fraudAlerts c \<and>
     paymentHistory d = paymentHistory c \<and> utilizationRate d = utilizationRate c \<and>
     accountAge d = accountAge c)"

text \<open>
  The first row of the sample file of \<^verbatim>\<open>generateSampleData\<close>, as \<^verbatim>\<open>parseCustomerFromCSV\<close>
  builds it (derived fields at their placeholders), with a fixed join date.
\<close>

definition sampleCustomer :: Customer where
  "sampleCustomer =
    \<lparr> id' = ''CUST-0001'', name = ''John Doe'', age = Num 32, income = Num 450000,
      creditScore = Num 720, accountBalance = Num 75000, transactionCount = Num 45,
      avgTransactionAmount = Num 8500, riskScore = Num 0, riskCategory = Medium,
      segment = [], city = ''Mumbai'', state = ''Maharashtra'',
      joinDate = ''2024-01-15'', lastTransactionDate = ''2024-01-15'',
      fraudAlerts = Num 0, paymentHistory = Num 92, utilizationRate = Num 35,
      accountAge = Num 36 \<rparr>"

section \<open>Risk scoring\<close>

text \<open>\<^verbatim>\<open>computeWeightedRiskScore\<close>: the running \<^verbatim>\<open>score\<close> is threaded through the six steps.\<close>

definition computeWeightedRiskScore :: "RiskFactors \<Rightarrow> number" where
  "computeWeightedRiskScore factors =
    (let score = Num 0;
         creditScoreNormalized =
           Math_max (Num 0) (js_div (js_sub (Num 850) (RiskFactors.creditScore factors)) (Num 450));
         score = js_add score (js_mul creditScoreNormalized (Num 35));
         paymentHistoryRisk =
           Math_max (Num 0) (js_div (js_sub (Num 100) (RiskFactors.paymentHistory factors)) (Num 100));
         score = js_add score (js_mul paymentHistoryRisk (Num 35));
         utilizationRisk =
           (if js_gt (RiskFactors.utilizationRate factors) (Num 30)
            then js_div (js_sub (RiskFactors.utilizationRate factors) (Num 30)) (Num 70)
            else Num 0);
         score = js_add score (js_mul utilizationRisk (Num 15));
         incomeRisk =
           Math_max (Num 0) (js_div (js_sub (Num 500000) (RiskFactors.income factors)) (Num 500000));
         score = js_add score (js_mul incomeRisk (Num 10));
         accountAgeRisk =
           Math_max (Num 0) (js_div (js_sub (Num 60) (RiskFactors.accountAge factors)) (Num 60));
         score = js_add score (js_mul accountAgeRisk (Num 3));
         fraudRisk = Math_min (Num 1) (js_div (RiskFactors.fraudAlerts factors) (Num 5));
         score = js_add score (js_mul fraudRisk (Num 2))
     in Math_min (Num 100) (Math_round score))"

text \<open>The \<^verbatim>\<open>factors\<close> object that \<^verbatim>\<open>calculateRiskScore\<close> builds.\<close>

definition riskFactorsOf :: "Customer \<Rightarrow> RiskFactors" where
  "riskFactorsOf customer =
    \<lparr> RiskFactors.creditScore = creditScore customer,
      RiskFactors.income = income customer,
      RiskFactors.paymentHistory = paymentHistory customer,
      RiskFactors.utilizationRate = utilizationRate customer,
      RiskFactors.accountAge = accountAge customer,
      RiskFactors.fraudAlerts = fraudAlerts customer,
      RiskFactors.transactionPattern = js_div (transactionCount customer) (accountAge customer),
      RiskFactors.avgTransactionAmount = avgTransactionAmount customer \<rparr>"

definition calculateRiskScore :: "Customer \<Rightarrow> number" where
  "calculateRiskScore customer = computeWeightedRiskScore (riskFactorsOf customer)"

text \<open>
  The sum that \<^verbatim>\<open>computeWeightedRiskScore\<close> accumulates in \<^verbatim>\<open>score\<close> when the six
  fields it reads are the finite numbers \<open>a\<close> (credit score), \<open>b\<close> (payment history),
  \<open>u\<close> (utilization), \<open>i\<close> (income), \<open>g\<close> (account age) and \<open>f\<close> (fraud alerts);
  lemma \<open>computeWeightedRiskScore_Num\<close> relates it to the code.
\<close>

definition weightedSum :: "real \<Rightarrow> real \<Rightarrow> real \<Rightarrow> real \<Rightarrow> real \<Rightarrow> real \<Rightarrow> real" where
  "weightedSum a b u i g f =
     0 + max 0 ((850 - a) / 450) * 35 + max 0 ((100 - b) / 100) * 35
       + (if 30 < u then (u - 30) / 70 else 0) * 15 + max 0 ((500000 - i) / 500000) * 10
       + max 0 ((60 - g) / 60) * 3 + min 1 (f / 5) * 2"

text \<open>
  The conditional expression of \<^verbatim>\<open>processNewCustomerData\<close> that turns the score into a
  category (the same expression is in \<^verbatim>\<open>generateCustomers\<close>).
\<close>

definition riskCategoryOf :: "number \<Rightarrow> RiskCategory" where
  "riskCategoryOf score =
    (if js_lt score (Num 30) then Low else if js_lt score (Num 70) then Medium else High)"

definition assignCustomerSegment :: "Customer \<Rightarrow> string" where
  "assignCustomerSegment customer =
    (if js_gt (income customer) (Num 600000) \<and> js_lt (riskScore customer) (Num 40) then ''Premium''
     else if js_gt (income customer) (Num 400000) \<and> js_lt (riskScore customer) (Num 60) then ''Gold''
     else if js_gt (income customer) (Num 250000) \<and> js_lt (riskScore customer) (Num 80) then ''Silver''
     else ''Basic'')"

section \<open>Batch pipeline, on a store of customer objects\<close>

text \<open>
  \<^verbatim>\<open>processNewCustomerData\<close> assigns to the fields of the objects it is given, so an array
  of customers is a list of references into a store. The callback of \<^verbatim>\<open>map\<close> performs the
  three assignments in order on one object and returns its reference.
\<close>

type_synonym ref = nat
type_synonym store = "ref \<Rightarrow> Customer"

definition processOne :: "Customer \<Rightarrow> Customer" where
  "processOne customer =
    (let customer = customer\<lparr>riskScore := calculateRiskScore customer\<rparr>;
         customer = customer\<lparr>riskCategory := riskCategoryOf (riskScore customer)\<rparr>;
         customer = customer\<lparr>segment := assignCustomerSegment customer\<rparr>
     in customer)"

fun processNewCustomerData :: "store \<Rightarrow> ref list \<Rightarrow> store \<times> ref list" where
  "processNewCustomerData s [] = (s, [])"
| "processNewCustomerData s (r # rawCustomers) =
    (let s = s(r := processOne (s r));
         (s, out) = processNewCustomerData s rawCustomers
     in (s, r # out))"

section \<open>Segment analysis\<close>

text \<open>
  The array length as a number, and the value of \<^verbatim>\<open>customer[field]\<close>, which is a number or
  a string according to the field.
\<close>

definition js_length :: "'a list \<Rightarrow> number" where
  "js_length xs = Num (real (length xs))"

datatype jsvalue = NumberV number | StringV string

text \<open>The objects of the \<^verbatim>\<open>segments\<close> array of \<^verbatim>\<open>clusterCustomers\<close>.\<close>

record Cluster =
  name :: string
  customers :: "Customer list"
  criteria :: "Customer \<Rightarrow> bool"

definition initialSegments :: "Cluster list" where
  "initialSegments =
    [ \<lparr> Cluster.name = ''Premium'', Cluster.customers = [],
        criteria = (\<lambda>c. js_gt (income c) (Num 600000) \<and> js_lt (riskScore c) (Num 40)) \<rparr>,
      \<lparr> Cluster.name = ''Gold'', Cluster.customers = [],
        criteria = (\<lambda>c. js_gt (income c) (Num 400000) \<and> js_lt (riskScore c) (Num 60)) \<rparr>,
      \<lparr> Cluster.name = ''Silver'', Cluster.customers = [],
        criteria = (\<lambda>c. js_gt (income c) (Num 250000) \<and> js_lt (riskScore c) (Num 80)) \<rparr>,
      \<lparr> Cluster.name = ''Basic'', Cluster.customers = [], criteria = (\<lambda>c. True) \<rparr> ]"

text \<open>The inner \<^verbatim>\<open>for\<close> loop: push to the first segment whose criteria hold, then break.\<close>

fun pushToFirstMatch :: "Customer \<Rightarrow> Cluster list \<Rightarrow> Cluster list" where
  "pushToFirstMatch customer [] = []"
| "pushToFirstMatch customer (seg # segs) =
    (if criteria seg customer
     then seg\<lparr>Cluster.customers := Cluster.customers seg @ [customer]\<rparr> # segs
     else seg # pushToFirstMatch customer segs)"

definition clusterCustomers :: "Customer list \<Rightarrow> Cluster list" where
  "clusterCustomers custs =
    (let segments = foldl (\<lambda>segments customer. pushToFirstMatch customer segments)
                      initialSegments custs
     in filter (\<lambda>s. 0 < length (Cluster.customers s)) segments)"

definition calculateAverage :: "Customer list \<Rightarrow> (Customer \<Rightarrow> jsvalue) \<Rightarrow> number" where
  "calculateAverage custs field =
    (let sum = foldl (\<lambda>acc customer.
                 let value = field customer
                 in js_add acc (case value of NumberV v \<Rightarrow> v | StringV _ \<Rightarrow> Num 0))
               (Num 0) custs
     in Math_round (js_div sum (js_length custs)))"

text \<open>
  The clock and the parsing of date strings belong to the runtime: \<open>now\<close> is the value of
  \<^verbatim>\<open>new Date().getTime()\<close> and \<open>dateOf str\<close> the time value of \<^verbatim>\<open>new Date(str)\<close>, NaN for an
  invalid date.
\<close>

definition calculateGrowthRate :: "real \<Rightarrow> (string \<Rightarrow> number) \<Rightarrow> Customer list \<Rightarrow> number" where
  "calculateGrowthRate now dateOf custs =
    (let sixMonthsAgo = Num (now - 6 * 30 * 24 * 60 * 60 * 1000);
         recentCustomers = length (filter (\<lambda>c. js_gt (dateOf (joinDate c)) sixMonthsAgo) custs);
         totalCustomers = length custs;
         oldCustomers = totalCustomers - recentCustomers
     in if oldCustomers = 0 then Num 100
        else Math_round (js_mul (js_div (Num (real recentCustomers)) (Num (real oldCustomers)))
                          (Num 100)))"

definition performSegmentAnalysis ::
    "real \<Rightarrow> (string \<Rightarrow> number) \<Rightarrow> Customer list \<Rightarrow> SegmentAnalysis list" where
  "performSegmentAnalysis now dateOf custs =
    (let segments = clusterCustomers custs
     in map (\<lambda>segment.
          \<lparr> SegmentAnalysis.segment = Cluster.name segment,
            SegmentAnalysis.customers = js_length (Cluster.customers segment),
            avgIncome = calculateAverage (Cluster.customers segment) (\<lambda>c. NumberV (income c)),
            SegmentAnalysis.avgRiskScore =
              calculateAverage (Cluster.customers segment) (\<lambda>c. NumberV (riskScore c)),
            revenue = foldl (\<lambda>sum c. js_add sum (js_mul (income c) (Num 0.15))) (Num 0)
                        (Cluster.customers segment),
            growthRate = calculateGrowthRate now dateOf (Cluster.customers segment),
            percentage = js_div (js_length (Cluster.customers segment)) (js_length custs) \<rparr>)
        segments)"

section \<open>Fraud detection\<close>

definition calculateAnomalyScore :: "Customer \<Rightarrow> Customer list \<Rightarrow> number" where
  "calculateAnomalyScore customer allCustomers =
    (let avgIncome = calculateAverage allCustomers (\<lambda>c. NumberV (income c));
         avgTransactionAmount =
           calculateAverage allCustomers (\<lambda>c. NumberV (Customer.avgTransactionAmount c));
         avgTransactionCount = calculateAverage allCustomers (\<lambda>c. NumberV (transactionCount c));
         incomeZScore =
           Math_abs (js_div (js_sub (income customer) avgIncome) (js_mul avgIncome (Num 0.5)));
         transactionAmountZScore =
           Math_abs (js_div (js_sub (Customer.avgTransactionAmount customer) avgTransactionAmount)
                      (js_mul avgTransactionAmount (Num 0.5)));
         transactionCountZScore =
           Math_abs (js_div (js_sub (transactionCount customer) avgTransactionCount)
                      (js_mul avgTransactionCount (Num 0.5)));
         anomalyScore =
           js_div (js_add (js_add (js_mul incomeZScore (Num 0.3))
                                  (js_mul transactionAmountZScore (Num 0.4)))
                          (js_mul transactionCountZScore (Num 0.3)))
                  (Num 3)
     in Math_min (Num 1) anomalyScore)"

definition detectFraudPatterns :: "Customer list \<Rightarrow> Customer list" where
  "detectFraudPatterns custs =
    filter (\<lambda>customer.
      let anomalyScore = calculateAnomalyScore customer custs
      in js_gt anomalyScore (Num 0.7)) custs"

section \<open>Numbers in template strings\<close>

definition digit :: "nat \<Rightarrow> char" where
  "digit n = ''0123456789'' ! n"

function string_of_nat :: "nat \<Rightarrow> string" where
  "string_of_nat n =
    (if n < 10 then [digit n] else string_of_nat (n div 10) @ [digit (n mod 10)])"
  by pat_completeness auto
termination
  by (relation "measure (\<lambda>n. n)") auto

declare string_of_nat.simps [simp del]

text \<open>
  \<^verbatim>\<open>${x}\<close> for a number \<open>x\<close>: the decimal digits of an integer below \<open>10\<^sup>2\<^sup>1\<close>, and the names
  of the special values. The shortest decimal form that the runtime prints for any other
  number is the parameter \<open>other\<close>.
\<close>

definition Number_toString :: "(real \<Rightarrow> string) \<Rightarrow> number \<Rightarrow> string" where
  "Number_toString other x =
    (case x of
       NaN \<Rightarrow> ''NaN''
     | Infinity \<Rightarrow> ''Infinity''
     | NegInfinity \<Rightarrow> ''-Infinity''
     | Num a \<Rightarrow>
         if of_int \<lfloor>a\<rfloor> = a \<and> \<bar>a\<bar> < 10 ^ 21
         then (if a < 0 then ''-'' else []) @ string_of_nat (nat \<lfloor>\<bar>a\<bar>\<rfloor>)
         else other a)"

text \<open>
  \<^verbatim>\<open>x.toFixed(1)\<close>: the integer \<open>n\<close> nearest to \<open>10 * x\<close> (the larger of two), printed with
  one digit after the point.
\<close>

definition toFixed1 :: "(real \<Rightarrow> string) \<Rightarrow> number \<Rightarrow> string" where
  "toFixed1 other x =
    (case x of
       Num a \<Rightarrow>
         (let s = (if a < 0 then ''-'' else []);
              a = \<bar>a\<bar>;
              m = (if 10 ^ 21 \<le> a then Number_toString other (Num a)
                   else let n = nat \<lfloor>a * 10 + 1 / 2\<rfloor>
                        in string_of_nat (n div 10) @ ''.'' @ string_of_nat (n mod 10))
          in s @ m)
     | _ \<Rightarrow> Number_toString other x)"

section \<open>Recommendations\<close>

text \<open>
  The digits of the percentage in the first message are those of the binary number that
  the engine has computed, so here the rounding of each arithmetic result is part of the
  model: \<open>dbl a\<close> is the number of the binary representation nearest to the real \<open>a\<close>, a
  parameter as the other parts of the runtime are. The two comparisons are with whole
  counts and are taken on the exact products: for an array length, the rounded product
  with 0.15 or 0.3 compares with every whole number as the exact product does.
\<close>

definition rounded :: "(real \<Rightarrow> number) \<Rightarrow> number \<Rightarrow> number" where
  "rounded dbl x = (case x of Num a \<Rightarrow> dbl a | _ \<Rightarrow> x)"

definition generateRecommendations ::
    "(real \<Rightarrow> string) \<Rightarrow> (real \<Rightarrow> number) \<Rightarrow> Customer list \<Rightarrow> SegmentAnalysis list
      \<Rightarrow> Recommendation list" where
  "generateRecommendations other dbl custs segments =
    (let recommendations = [];
         highRiskCount = length (filter (\<lambda>c. riskCategory c = High) custs);
         premiumSegment = find (\<lambda>s. SegmentAnalysis.segment s = ''Premium'') segments;
         lowUtilizationCustomers = length (filter (\<lambda>c. js_lt (utilizationRate c) (Num 20)) custs);
         recommendations =
           (if js_gt (Num (real highRiskCount)) (js_mul (js_length custs) (Num 0.15))
            then recommendations @
              [\<lparr> type = ''risk_management'', priority = ''critical'',
                 message = Number_toString other (Num (real highRiskCount)) @ '' customers ('' @
                   toFixed1 other
                     (rounded dbl
                       (js_mul (rounded dbl (js_div (Num (real highRiskCount)) (js_length custs)))
                          (Num 100))) @
                   ''%) are high-risk. Implement stricter monitoring.'' \<rparr>]
            else recommendations);
         recommendations =
           (case premiumSegment of
              Some premium \<Rightarrow>
                if js_gt (growthRate premium) (Num 15)
                then recommendations @
                  [\<lparr> type = ''growth_opportunity'', priority = ''high'',
                     message = ''Premium segment shows '' @
                       Number_toString other (growthRate premium) @
                       ''% growth. Increase acquisition budget by 25%.'' \<rparr>]
                else recommendations
            | None \<Rightarrow> recommendations);
         recommendations =
           (if js_gt (Num (real lowUtilizationCustomers)) (js_mul (js_length custs) (Num 0.3))
            then recommendations @
              [\<lparr> type = ''engagement'', priority = ''medium'',
                 message = Number_toString other (Num (real lowUtilizationCustomers)) @
                   '' customers have low utilization. Launch engagement campaigns.'' \<rparr>]
            else recommendations)
     in recommendations)"

section \<open>Monthly trends\<close>

text \<open>
  \<open>monthOf str\<close> is \<^verbatim>\<open>new Date(str).toISOString().slice(0, 7)\<close>, and \<open>None\<close> where
  \<^verbatim>\<open>toISOString\<close> throws a \<^verbatim>\<open>RangeError\<close> on an invalid date. The \<^verbatim>\<open>Map\<close> keeps its keys in
  insertion order, so it is a list of pairs with distinct keys.
\<close>

datatype error = RangeError

record MonthData =
  newCustomers :: number
  totalRevenue :: number
  avgRiskScore :: number

definition addToMonth ::
    "(string \<Rightarrow> string option) \<Rightarrow> (string \<times> MonthData) list \<Rightarrow> Customer
      \<Rightarrow> error + (string \<times> MonthData) list" where
  "addToMonth monthOf monthlyData customer =
    (case monthOf (joinDate customer) of
       None \<Rightarrow> Inl RangeError
     | Some monthKey \<Rightarrow>
         (let monthlyData =
                (if map_of monthlyData monthKey = None
                 then monthlyData @
                   [(monthKey, \<lparr> MonthData.newCustomers = Num 0, MonthData.totalRevenue = Num 0,
                              MonthData.avgRiskScore = Num 0 \<rparr>)]
                 else monthlyData)
          in Inr (map (\<lambda>(key, data).
                   if key = monthKey
                   then (key, data\<lparr> MonthData.newCustomers := js_add (MonthData.newCustomers data) (Num 1),
                                     MonthData.totalRevenue :=
                                       js_add (MonthData.totalRevenue data) (js_mul (income customer) (Num 0.15)),
                                     MonthData.avgRiskScore :=
                                       js_add (MonthData.avgRiskScore data) (riskScore customer) \<rparr>)
                   else (key, data)) monthlyData)))"

fun forEachMonth ::
    "(string \<Rightarrow> string option) \<Rightarrow> (string \<times> MonthData) list \<Rightarrow> Customer list
      \<Rightarrow> error + (string \<times> MonthData) list" where
  "forEachMonth monthOf monthlyData [] = Inr monthlyData"
| "forEachMonth monthOf monthlyData (customer # custs) =
    (case addToMonth monthOf monthlyData customer of
       Inl e \<Rightarrow> Inl e
     | Inr monthlyData \<Rightarrow> forEachMonth monthOf monthlyData custs)"

text \<open>
  \<^verbatim>\<open>Array.prototype.sort\<close> is stable; \<open>compare a b\<close> is negative, zero or positive. The
  comparison of strings, \<^verbatim>\<open>localeCompare\<close>, is a parameter.
\<close>

fun insertSorted :: "('a \<Rightarrow> 'a \<Rightarrow> int) \<Rightarrow> 'a \<Rightarrow> 'a list \<Rightarrow> 'a list" where
  "insertSorted compare x [] = [x]"
| "insertSorted compare x (y # ys) =
    (if compare x y \<le> 0 then x # y # ys else y # insertSorted compare x ys)"

definition Array_sort :: "('a \<Rightarrow> 'a \<Rightarrow> int) \<Rightarrow> 'a list \<Rightarrow> 'a list" where
  "Array_sort compare xs = foldr (insertSorted compare) xs []"

definition calculateMonthlyTrends ::
    "(string \<Rightarrow> string option) \<Rightarrow> (string \<Rightarrow> string \<Rightarrow> int) \<Rightarrow> Customer list
      \<Rightarrow> error + MonthlyTrend list" where
  "calculateMonthlyTrends monthOf localeCompare custs =
    (case forEachMonth monthOf [] custs of
       Inl e \<Rightarrow> Inl e
     | Inr monthlyData \<Rightarrow>
         Inr (Array_sort (\<lambda>a b. localeCompare (month a) (month b))
               (map (\<lambda>(monthKey, data).
                   \<lparr> month = monthKey,
                     MonthlyTrend.newCustomers = MonthData.newCustomers data,
                     MonthlyTrend.totalRevenue = MonthData.totalRevenue data,
                     MonthlyTrend.avgRiskScore =
                       Math_round (js_div (MonthData.avgRiskScore data) (MonthData.newCustomers data)) \<rparr>)
                 monthlyData)))"

section \<open>The divisions that the aggregate functions evaluate\<close>

text \<open>
  For each aggregate function, the divisors of the \<^verbatim>\<open>/\<close> operations that it evaluates on its
  input, in the order of evaluation. A callback that is never called evaluates none.
\<close>

definition calculateAverage_divisors :: "Customer list \<Rightarrow> number list" where
  "calculateAverage_divisors custs = [js_length custs]"

definition calculateGrowthRate_divisors ::
    "real \<Rightarrow> (string \<Rightarrow> number) \<Rightarrow> Customer list \<Rightarrow> number list" where
  "calculateGrowthRate_divisors now dateOf custs =
    (let sixMonthsAgo = Num (now - 6 * 30 * 24 * 60 * 60 * 1000);
         recentCustomers = length (filter (\<lambda>c. js_gt (dateOf (joinDate c)) sixMonthsAgo) custs);
         totalCustomers = length custs;
         oldCustomers = totalCustomers - recentCustomers
     in if oldCustomers = 0 then [] else [Num (real oldCustomers)])"

definition performSegmentAnalysis_divisors ::
    "real \<Rightarrow> (string \<Rightarrow> number) \<Rightarrow> Customer list \<Rightarrow> number list" where
  "performSegmentAnalysis_divisors now dateOf custs =
    concat (map (\<lambda>segment.
        calculateAverage_divisors (Cluster.customers segment) @
        calculateAverage_divisors (Cluster.customers segment) @
        calculateGrowthRate_divisors now dateOf (Cluster.customers segment) @
        [js_length custs])
      (clusterCustomers custs))"

definition calculateAnomalyScore_divisors :: "Customer \<Rightarrow> Customer list \<Rightarrow> number list" where
  "calculateAnomalyScore_divisors customer allCustomers =
    calculateAverage_divisors allCustomers @ calculateAverage_divisors allCustomers @
    calculateAverage_divisors allCustomers @
    [ js_mul (calculateAverage allCustomers (\<lambda>c. NumberV (income c))) (Num 0.5),
      js_mul (calculateAverage allCustomers (\<lambda>c. NumberV (Customer.avgTransactionAmount c))) (Num 0.5),
      js_mul (calculateAverage allCustomers (\<lambda>c. NumberV (transactionCount c))) (Num 0.5),
      Num 3 ]"

definition detectFraudPatterns_divisors :: "Customer list \<Rightarrow> number list" where
  "detectFraudPatterns_divisors custs =
    concat (map (\<lambda>customer. calculateAnomalyScore_divisors customer custs) custs)"

definition generateRecommendations_divisors :: "Customer list \<Rightarrow> number list" where
  "generateRecommendations_divisors custs =
    (let highRiskCount = length (filter (\<lambda>c. riskCategory c = High) custs)
     in if js_gt (Num (real highRiskCount)) (js_mul (js_length custs) (Num 0.15))
        then [js_length custs] else [])"

definition calculateMonthlyTrends_divisors ::
    "(string \<Rightarrow> string option) \<Rightarrow> Customer list \<Rightarrow> number list" where
  "calculateMonthlyTrends_divisors monthOf custs =
    (case forEachMonth monthOf [] custs of
       Inl e \<Rightarrow> []
     | Inr monthlyData \<Rightarrow> map (\<lambda>(monthKey, data). MonthData.newCustomers data) monthlyData)"

section \<open>Values used in the proofs and examples\<close>

text \<open>
  The \<^verbatim>\<open>segments\<close> array of \<^verbatim>\<open>clusterCustomers\<close> when its \<^verbatim>\<open>forEach\<close> has run: each bucket
  holds, in their order, the customers that \<^verbatim>\<open>assignCustomerSegment\<close> maps to its name
  (lemma \<open>foldl_pushToFirstMatch\<close>).
\<close>

definition segmentsAfter :: "Customer list \<Rightarrow> Cluster list" where
  "segmentsAfter custs =
    [ \<lparr> Cluster.name = ''Premium'',
        Cluster.customers = filter (\<lambda>c. assignCustomerSegment c = ''Premium'') custs,
        criteria = (\<lambda>c. js_gt (income c) (Num 600000) \<and> js_lt (riskScore c) (Num 40)) \<rparr>,
      \<lparr> Cluster.name = ''Gold'',
        Cluster.customers = filter (\<lambda>c. assignCustomerSegment c = ''Gold'') custs,
        criteria = (\<lambda>c. js_gt (income c) (Num 400000) \<and> js_lt (riskScore c) (Num 60)) \<rparr>,
      \<lparr> Cluster.name = ''Silver'',
        Cluster.customers = filter (\<lambda>c. assignCustomerSegment c = ''Silver'') custs,
        criteria = (\<lambda>c. js_gt (income c) (Num 250000) \<and> js_lt (riskScore c) (Num 80)) \<rparr>,
      \<lparr> Cluster.name = ''Basic'',
        Cluster.customers = filter (\<lambda>c. assignCustomerSegment c = ''Basic'') custs,
        criteria = (\<lambda>c. True) \<rparr> ]"

text \<open>
  Two processed customers: one of high income and low risk, one of low income and high
  risk.
\<close>

definition premiumCustomer :: Customer where
  "premiumCustomer =
    sampleCustomer\<lparr>income := Num 650000, creditScore := Num 800, paymentHistory := Num 95,
      utilizationRate := Num 10, accountAge := Num 48, fraudAlerts := Num 0,
      riskScore := Num 6, riskCategory := Low, segment := ''Premium''\<rparr>"

definition basicCustomer :: Customer where
  "basicCustomer =
    sampleCustomer\<lparr>income := Num 100000, creditScore := Num 450, paymentHistory := Num 60,
      utilizationRate := Num 90, accountAge := Num 3, fraudAlerts := Num 3,
      riskScore := Num 70, riskCategory := High, segment := ''Basic''\<rparr>"

text \<open>A population of 100 processed customers, \<open>k\<close> of them of High risk.\<close>

definition population :: "nat \<Rightarrow> Customer list" where
  "population k = replicate k basicCustomer @ replicate (100 - k) premiumCustomer"

text \<open>The sample customer with income \<open>i\<close> and stored risk score \<open>r\<close>.\<close>

definition scored :: "real \<Rightarrow> real \<Rightarrow> Customer" where
  "scored i r = sampleCustomer\<lparr>income := Num i, riskScore := Num r\<rparr>"

text \<open>The sample customer with no transaction, and with a single one.\<close>

definition idleCustomer :: Customer where
  "idleCustomer = sampleCustomer\<lparr>transactionCount := Num 0\<rparr>"

definition onceCustomer :: Customer where
  "onceCustomer = sampleCustomer\<lparr>transactionCount := Num 1\<rparr>"

section \<open>Risk score: range\<close>

lemma isFinite_iff: "isFinite x \<longleftrightarrow> (\<exists>a. x = Num a)"
  by (cases x) auto

lemma clamp0_term:
  "d \<noteq> 0 \<Longrightarrow>
    Math_max (Num 0) (js_div (js_sub (Num k) (Num a)) (Num d)) = Num (max 0 ((k - a) / d))"
  by (simp add: js_sub_def max_def)

lemma utilization_term:
  "(if js_gt (Num u) (Num 30) then js_div (js_sub (Num u) (Num 30)) (Num 70) else Num 0)
     = Num (if 30 < u then (u - 30) / 70 else 0)"
  by (simp add: js_sub_def js_gt_def)

lemma fraud_term: "Math_min (Num 1) (js_div (Num f) (Num 5)) = Num (min 1 (f / 5))"
  by (simp add: min_def)

lemma weigh_term: "js_add (Num x) (js_mul (Num t) (Num w)) = Num (x + t * w)"
  by simp

lemma round_clamp:
  "Math_min (Num 100) (Math_round (Num s)) = Num (of_int (min 100 \<lfloor>s + 1 / 2\<rfloor>))"
  by (simp add: min_def)

lemma computeWeightedRiskScore_Num:
  "computeWeightedRiskScore
     \<lparr> RiskFactors.creditScore = Num a, RiskFactors.income = Num i,
       RiskFactors.paymentHistory = Num b, RiskFactors.utilizationRate = Num u,
       RiskFactors.accountAge = Num g, RiskFactors.fraudAlerts = Num f,
       RiskFactors.transactionPattern = tp, RiskFactors.avgTransactionAmount = ta \<rparr>
   = Num (of_int (min 100 \<lfloor>weightedSum a b u i g f + 1 / 2\<rfloor>))"
proof -
  have d: "(450::real) \<noteq> 0" "(100::real) \<noteq> 0" "(500000::real) \<noteq> 0" "(60::real) \<noteq> 0"
    by simp_all
  show ?thesis
    unfolding computeWeightedRiskScore_def Let_def RiskFactors.simps weightedSum_def
      clamp0_term [OF d(1)] clamp0_term [OF d(2)] clamp0_term [OF d(3)] clamp0_term [OF d(4)]
      utilization_term fraud_term weigh_term round_clamp
    by (rule refl)
qed

lemma weightedSum_nonneg:
  assumes f: "0 \<le> f"
  shows "0 \<le> weightedSum a b u i g f"
proof -
  have "0 \<le> max 0 ((850 - a) / 450) * 35" "0 \<le> max 0 ((100 - b) / 100) * 35"
    "0 \<le> (if 30 < u then (u - 30) / 70 else 0) * 15"
    "0 \<le> max 0 ((500000 - i) / 500000) * 10"
    "0 \<le> max 0 ((60 - g) / 60) * 3" "0 \<le> min 1 (f / 5) * 2"
    using f by (simp_all add: min_def)
  then show ?thesis unfolding weightedSum_def by linarith
qed

lemma calculateRiskScore_Num:
  assumes "creditScore c = Num a" "paymentHistory c = Num b" "utilizationRate c = Num u"
    "income c = Num i" "accountAge c = Num g" "fraudAlerts c = Num f"
  shows "calculateRiskScore c = Num (of_int (min 100 \<lfloor>weightedSum a b u i g f + 1 / 2\<rfloor>))"
  unfolding calculateRiskScore_def riskFactorsOf_def assms
  by (rule computeWeightedRiskScore_Num)

lemma finiteCustomer_fields:
  assumes "finiteCustomer c"
  obtains a b u i g f where "creditScore c = Num a" "paymentHistory c = Num b"
    "utilizationRate c = Num u" "income c = Num i" "accountAge c = Num g" "fraudAlerts c = Num f"
  using assms unfolding finiteCustomer_def isFinite_iff by blast

text \<open>
  For every customer with finite numeric fields the score is an integer and at most 100,
  whatever the sign of \<^verbatim>\<open>fraudAlerts\<close>.
\<close>

lemma calculateRiskScore_integer_upper:
  assumes fin: "finiteCustomer c"
  shows "\<exists>n::int. calculateRiskScore c = Num (of_int n) \<and> n \<le> 100"
proof -
  from fin obtain a b u i g f where
    flds: "creditScore c = Num a" "paymentHistory c = Num b" "utilizationRate c = Num u"
      "income c = Num i" "accountAge c = Num g" "fraudAlerts c = Num f"
    by (rule finiteCustomer_fields)
  have "min 100 \<lfloor>weightedSum a b u i g f + 1 / 2\<rfloor> \<le> 100" by simp
  with calculateRiskScore_Num [OF flds] show ?thesis by blast
qed

text \<open>
  With a \<^verbatim>\<open>fraudAlerts\<close> count that is not negative the score is not negative either, so
  it is an integer between 0 and 100.
\<close>

lemma calculateRiskScore_range:
  assumes fin: "finiteCustomer c" and fraud: "js_ge (fraudAlerts c) (Num 0)"
  shows "\<exists>n::int. calculateRiskScore c = Num (of_int n) \<and> 0 \<le> n \<and> n \<le> 100"
proof -
  from fin obtain a b u i g f where
    flds: "creditScore c = Num a" "paymentHistory c = Num b" "utilizationRate c = Num u"
      "income c = Num i" "accountAge c = Num g" "fraudAlerts c = Num f"
    by (rule finiteCustomer_fields)
  from fraud flds(6) have "0 \<le> f" by (auto simp: js_ge_def)
  then have "0 \<le> weightedSum a b u i g f" by (rule weightedSum_nonneg)
  then have "0 \<le> \<lfloor>weightedSum a b u i g f + 1 / 2\<rfloor>" by simp
  then have "0 \<le> min 100 \<lfloor>weightedSum a b u i g f + 1 / 2\<rfloor>"
    "min 100 \<lfloor>weightedSum a b u i g f + 1 / 2\<rfloor> \<le> 100" by simp_all
  with calculateRiskScore_Num [OF flds] show ?thesis by blast
qed

text \<open>The extreme values that the specification names, on the sample customer.\<close>

lemma calculateRiskScore_range_extremes:
  "finiteCustomer (sampleCustomer\<lparr>creditScore := Num 0, income := Num 0,
      utilizationRate := Num 100, fraudAlerts := Num 1000\<rparr>) \<and>
   js_ge (fraudAlerts (sampleCustomer\<lparr>creditScore := Num 0, income := Num 0,
      utilizationRate := Num 100, fraudAlerts := Num 1000\<rparr>)) (Num 0) \<and>
   (\<exists>n::int. calculateRiskScore (sampleCustomer\<lparr>creditScore := Num 0, income := Num 0,
      utilizationRate := Num 100, fraudAlerts := Num 1000\<rparr>) = Num (of_int n) \<and>
      0 \<le> n \<and> n \<le> 100)"
  using calculateRiskScore_range [of "sampleCustomer\<lparr>creditScore := Num 0, income := Num 0,
      utilizationRate := Num 100, fraudAlerts := Num 1000\<rparr>"]
  by (simp add: finiteCustomer_def sampleCustomer_def js_ge_def)

text \<open>
  C1. The score of every customer with finite numeric fields should be an integer between
  0 and 100. \<^verbatim>\<open>computeWeightedRiskScore\<close> bounds five of its six terms below by 0 and the
  fraud term only above by 1, and the result only above by 100: for the sample customer
  with \<^verbatim>\<open>fraudAlerts\<close> -1000, all of whose fields are finite, the fraud term is -400 and
  \<^verbatim>\<open>calculateRiskScore\<close> returns -384.
\<close>

theorem calculateRiskScore_negative_fraudAlerts:
  "finiteCustomer (sampleCustomer\<lparr>fraudAlerts := Num (- 1000)\<rparr>) \<and>
   calculateRiskScore (sampleCustomer\<lparr>fraudAlerts := Num (- 1000)\<rparr>) = Num (- 384)"
  by (simp add: calculateRiskScore_Num [of _ 720 92 35 450000 36 "- 1000"] sampleCustomer_def
      weightedSum_def finiteCustomer_def)

section \<open>Risk category and segment\<close>

text \<open>
  C2. The category is a function of the score alone, with strict tests: a score below 30 is
  Low, a score from 30 and below 70 is Medium, a score of 70 or more is High; 29, 30, 69, 70
  map to Low, Medium, Medium, High; and the category that the pipeline stores is that of
  the score it stores.
\<close>

theorem riskCategoryOf_boundaries:
  "(js_lt s (Num 30) \<longrightarrow> riskCategoryOf s = Low) \<and>
   (js_ge s (Num 30) \<and> js_lt s (Num 70) \<longrightarrow> riskCategoryOf s = Medium) \<and>
   (js_ge s (Num 70) \<longrightarrow> riskCategoryOf s = High) \<and>
   riskCategoryOf (Num 29) = Low \<and> riskCategoryOf (Num 30) = Medium \<and>
   riskCategoryOf (Num 69) = Medium \<and> riskCategoryOf (Num 70) = High \<and>
   riskCategory (processOne c) = riskCategoryOf (riskScore (processOne c))"
  by (cases s) (auto simp: riskCategoryOf_def js_ge_def processOne_def Let_def)

theorem riskCategoryOf_boundaries_witness:
  "js_lt (Num 29) (Num 30) \<and> riskCategoryOf (Num 29) = Low \<and>
   js_ge (Num 30) (Num 30) \<and> js_lt (Num 30) (Num 70) \<and> riskCategoryOf (Num 30) = Medium \<and>
   js_ge (Num 70) (Num 70) \<and> riskCategoryOf (Num 70) = High"
  using riskCategoryOf_boundaries [of "Num 29"] riskCategoryOf_boundaries [of "Num 30"]
    riskCategoryOf_boundaries [of "Num 70"]
  by (simp add: js_ge_def)

text \<open>
  C3. \<^verbatim>\<open>assignCustomerSegment\<close> tries four predicates in order and the first that holds
  decides: income above 600000 and score below 40 gives Premium, whatever the later
  predicates say; failing that, income above 400000 and score below 60 gives Gold; failing
  both, income above 250000 and score below 80 gives Silver; and Basic when none holds.
\<close>

theorem assignCustomerSegment_first_match:
  "(js_gt (income c) (Num 600000) \<and> js_lt (riskScore c) (Num 40)
      \<longrightarrow> assignCustomerSegment c = ''Premium'') \<and>
   (\<not> (js_gt (income c) (Num 600000) \<and> js_lt (riskScore c) (Num 40)) \<and>
    js_gt (income c) (Num 400000) \<and> js_lt (riskScore c) (Num 60)
      \<longrightarrow> assignCustomerSegment c = ''Gold'') \<and>
   (\<not> (js_gt (income c) (Num 600000) \<and> js_lt (riskScore c) (Num 40)) \<and>
    \<not> (js_gt (income c) (Num 400000) \<and> js_lt (riskScore c) (Num 60)) \<and>
    js_gt (income c) (Num 250000) \<and> js_lt (riskScore c) (Num 80)
      \<longrightarrow> assignCustomerSegment c = ''Silver'') \<and>
   (\<not> (js_gt (income c) (Num 600000) \<and> js_lt (riskScore c) (Num 40)) \<and>
    \<not> (js_gt (income c) (Num 400000) \<and> js_lt (riskScore c) (Num 60)) \<and>
    \<not> (js_gt (income c) (Num 250000) \<and> js_lt (riskScore c) (Num 80))
      \<longrightarrow> assignCustomerSegment c = ''Basic'')"
  by (simp add: assignCustomerSegment_def)

text \<open>
  Income 700000 with score 35: all three predicates hold and the result is Premium. The
  same income with score 50 fails the first predicate only and is Gold, with score 70 it
  fails the first two and is Silver; income 200000 with score 10 fails all three and is
  Basic.
\<close>

theorem assignCustomerSegment_first_match_witness:
  "js_gt (income (scored 700000 35)) (Num 600000) \<and> js_lt (riskScore (scored 700000 35)) (Num 40) \<and>
   js_gt (income (scored 700000 35)) (Num 400000) \<and> js_lt (riskScore (scored 700000 35)) (Num 60) \<and>
   js_gt (income (scored 700000 35)) (Num 250000) \<and> js_lt (riskScore (scored 700000 35)) (Num 80) \<and>
   assignCustomerSegment (scored 700000 35) = ''Premium'' \<and>
   \<not> (js_gt (income (scored 700000 50)) (Num 600000) \<and> js_lt (riskScore (scored 700000 50)) (Num 40)) \<and>
   js_gt (income (scored 700000 50)) (Num 400000) \<and> js_lt (riskScore (scored 700000 50)) (Num 60) \<and>
   js_gt (income (scored 700000 50)) (Num 250000) \<and> js_lt (riskScore (scored 700000 50)) (Num 80) \<and>
   assignCustomerSegment (scored 700000 50) = ''Gold'' \<and>
   \<not> (js_gt (income (scored 700000 70)) (Num 600000) \<and> js_lt (riskScore (scored 700000 70)) (Num 40)) \<and>
   \<not> (js_gt (income (scored 700000 70)) (Num 400000) \<and> js_lt (riskScore (scored 700000 70)) (Num 60)) \<and>
   js_gt (income (scored 700000 70)) (Num 250000) \<and> js_lt (riskScore (scored 700000 70)) (Num 80) \<and>
   assignCustomerSegment (scored 700000 70) = ''Silver'' \<and>
   \<not> (js_gt (income (scored 200000 10)) (Num 600000) \<and> js_lt (riskScore (scored 200000 10)) (Num 40)) \<and>
   \<not> (js_gt (income (scored 200000 10)) (Num 400000) \<and> js_lt (riskScore (scored 200000 10)) (Num 60)) \<and>
   \<not> (js_gt (income (scored 200000 10)) (Num 250000) \<and> js_lt (riskScore (scored 200000 10)) (Num 80)) \<and>
   assignCustomerSegment (scored 200000 10) = ''Basic''"
  using assignCustomerSegment_first_match [of "scored 700000 35"]
    assignCustomerSegment_first_match [of "scored 700000 50"]
    assignCustomerSegment_first_match [of "scored 700000 70"]
    assignCustomerSegment_first_match [of "scored 200000 10"]
  by (simp add: scored_def js_gt_def)

section \<open>The transaction pattern ratio\<close>

lemma transactionPattern_unread:
  "computeWeightedRiskScore (factors\<lparr>RiskFactors.transactionPattern := x\<rparr>)
     = computeWeightedRiskScore factors"
  by (simp add: computeWeightedRiskScore_def)

lemma div_zero_not_finite: "isFinite x \<Longrightarrow> \<not> isFinite (js_div x (Num 0))"
  by (cases x) (auto simp: inf_of_sign_def)

text \<open>
  C7 (as amended). The ratio is not guarded: for a customer with finite fields and
  \<^verbatim>\<open>accountAge\<close> 0 the field \<^verbatim>\<open>transactionPattern\<close> of the factors is not finite. The scoring
  never reads that field, so \<^verbatim>\<open>calculateRiskScore\<close> is finite all the same, and is the same
  whatever the field holds.
\<close>

theorem calculateRiskScore_accountAge_zero:
  assumes fin: "finiteCustomer c" and zero: "accountAge c = Num 0"
  shows "\<not> isFinite (RiskFactors.transactionPattern (riskFactorsOf c)) \<and>
         isFinite (calculateRiskScore c) \<and>
         computeWeightedRiskScore ((riskFactorsOf c)\<lparr>RiskFactors.transactionPattern := x\<rparr>)
           = calculateRiskScore c"
proof -
  from fin obtain a b u i g f where
    flds: "creditScore c = Num a" "paymentHistory c = Num b" "utilizationRate c = Num u"
      "income c = Num i" "accountAge c = Num g" "fraudAlerts c = Num f"
    by (rule finiteCustomer_fields)
  from fin have "isFinite (transactionCount c)" by (simp add: finiteCustomer_def)
  then have "\<not> isFinite (RiskFactors.transactionPattern (riskFactorsOf c))"
    unfolding riskFactorsOf_def RiskFactors.simps zero by (rule div_zero_not_finite)
  moreover have "isFinite (calculateRiskScore c)"
    unfolding calculateRiskScore_Num [OF flds] by simp
  moreover have
    "computeWeightedRiskScore ((riskFactorsOf c)\<lparr>RiskFactors.transactionPattern := x\<rparr>)
       = calculateRiskScore c"
    unfolding calculateRiskScore_def by (rule transactionPattern_unread)
  ultimately show ?thesis by blast
qed

theorem calculateRiskScore_accountAge_zero_witness:
  "finiteCustomer (sampleCustomer\<lparr>accountAge := Num 0\<rparr>) \<and>
   accountAge (sampleCustomer\<lparr>accountAge := Num 0\<rparr>) = Num 0 \<and>
   \<not> isFinite (RiskFactors.transactionPattern
        (riskFactorsOf (sampleCustomer\<lparr>accountAge := Num 0\<rparr>))) \<and>
   isFinite (calculateRiskScore (sampleCustomer\<lparr>accountAge := Num 0\<rparr>)) \<and>
   computeWeightedRiskScore ((riskFactorsOf (sampleCustomer\<lparr>accountAge := Num 0\<rparr>))
       \<lparr>RiskFactors.transactionPattern := Num 0\<rparr>)
     = calculateRiskScore (sampleCustomer\<lparr>accountAge := Num 0\<rparr>)"
  using calculateRiskScore_accountAge_zero [of "sampleCustomer\<lparr>accountAge := Num 0\<rparr>" "Num 0"]
  by (simp add: finiteCustomer_def sampleCustomer_def)

text \<open>With 45 transactions and account age 0 the ratio is \<open>45 / 0\<close>, which is Infinity.\<close>

theorem transactionPattern_unguarded:
  "accountAge (sampleCustomer\<lparr>accountAge := Num 0\<rparr>) = Num 0 \<and>
   finiteCustomer (sampleCustomer\<lparr>accountAge := Num 0\<rparr>) \<and>
   RiskFactors.transactionPattern (riskFactorsOf (sampleCustomer\<lparr>accountAge := Num 0\<rparr>))
     = Infinity"
  by (simp add: riskFactorsOf_def sampleCustomer_def finiteCustomer_def inf_of_sign_def)

section \<open>Batch pipeline\<close>

lemma calculateRiskScore_derived:
  "calculateRiskScore (c\<lparr>riskScore := x, riskCategory := y, segment := z\<rparr>) = calculateRiskScore c"
  by (simp add: calculateRiskScore_def riskFactorsOf_def)

lemma processOne_eq:
  "processOne c = c\<lparr>riskScore := calculateRiskScore c,
      riskCategory := riskCategoryOf (calculateRiskScore c),
      segment := assignCustomerSegment (c\<lparr>riskScore := calculateRiskScore c\<rparr>)\<rparr>"
  by (simp add: processOne_def Let_def assignCustomerSegment_def)

lemma processOne_derived:
  "processOne (c\<lparr>riskScore := x, riskCategory := y, segment := z\<rparr>) = processOne c"
  unfolding processOne_eq calculateRiskScore_derived
  by (simp add: assignCustomerSegment_def)

lemma processOne_idem: "processOne (processOne c) = processOne c"
  by (subst (2) processOne_eq) (rule processOne_derived)

lemma processNewCustomerData_eq:
  "processNewCustomerData s rs = ((\<lambda>r. if r \<in> set rs then processOne (s r) else s r), rs)"
proof (induction rs arbitrary: s)
  case Nil
  show ?case by simp
next
  case (Cons r rs)
  have "(\<lambda>x. if x \<in> set rs then processOne ((s(r := processOne (s r))) x)
             else (s(r := processOne (s r))) x)
        = (\<lambda>x. if x \<in> set (r # rs) then processOne (s x) else s x)"
    by (rule ext) (simp add: processOne_idem)
  then show ?case by (simp add: Cons.IH)
qed

text \<open>
  C9. Running \<^verbatim>\<open>processNewCustomerData\<close> again on the array it has processed changes nothing:
  the store and the returned array are those of the first run. The derived fields of a
  processed customer do not depend on the derived fields it had before.
\<close>

theorem processNewCustomerData_idempotent:
  "processNewCustomerData (fst (processNewCustomerData s rs)) rs = processNewCustomerData s rs \<and>
   processOne (c\<lparr>riskScore := x, riskCategory := y, segment := z\<rparr>) = processOne c"
proof -
  have "(\<lambda>r. if r \<in> set rs then processOne (if r \<in> set rs then processOne (s r) else s r)
              else (if r \<in> set rs then processOne (s r) else s r))
        = (\<lambda>r. if r \<in> set rs then processOne (s r) else s r)"
    by (rule ext) (simp add: processOne_idem)
  then show ?thesis by (simp add: processNewCustomerData_eq processOne_derived)
qed

text \<open>
  C10. \<^verbatim>\<open>processNewCustomerData\<close> returns the references it was given, in the same order,
  and no new object: in the store, an object of the array has its three derived fields
  overwritten and every other field as before, and an object outside the array is
  untouched.
\<close>

theorem processNewCustomerData_in_place:
  "snd (processNewCustomerData s rs) = rs \<and>
   fst (processNewCustomerData s rs) r =
     (if r \<in> set rs
      then (s r)\<lparr>riskScore := calculateRiskScore (s r),
              riskCategory := riskCategoryOf (calculateRiskScore (s r)),
              segment := assignCustomerSegment ((s r)\<lparr>riskScore := calculateRiskScore (s r)\<rparr>)\<rparr>
      else s r) \<and>
   sameInputFields (s r) (fst (processNewCustomerData s rs) r)"
  by (simp add: processNewCustomerData_eq processOne_eq sameInputFields_def)

section \<open>Segment analysis: the buckets and their shares\<close>

lemma pushToFirstMatch_segmentsAfter:
  "pushToFirstMatch x (segmentsAfter xs) = segmentsAfter (xs @ [x])"
  by (simp add: segmentsAfter_def assignCustomerSegment_def)

lemma foldl_pushToFirstMatch:
  "foldl (\<lambda>segments customer. pushToFirstMatch customer segments) initialSegments custs
     = segmentsAfter custs"
proof (induction custs rule: rev_induct)
  case Nil
  show ?case by (simp add: initialSegments_def segmentsAfter_def)
next
  case (snoc x xs)
  then show ?case by (simp add: pushToFirstMatch_segmentsAfter)
qed

lemma clusterCustomers_eq:
  "clusterCustomers custs = filter (\<lambda>s. 0 < length (Cluster.customers s)) (segmentsAfter custs)"
  by (simp add: clusterCustomers_def foldl_pushToFirstMatch)

lemma bucket_lengths:
  "length (filter (\<lambda>c. assignCustomerSegment c = ''Premium'') custs)
   + length (filter (\<lambda>c. assignCustomerSegment c = ''Gold'') custs)
   + length (filter (\<lambda>c. assignCustomerSegment c = ''Silver'') custs)
   + length (filter (\<lambda>c. assignCustomerSegment c = ''Basic'') custs) = length custs"
  by (induction custs) (simp_all add: assignCustomerSegment_def)

lemma sum_percentages:
  assumes "n \<noteq> 0"
  shows "foldl js_add (Num a)
      (map (\<lambda>s. js_div (js_length (Cluster.customers s)) (Num n))
         (filter (\<lambda>s. 0 < length (Cluster.customers s)) segs))
    = Num (a + (\<Sum>s\<leftarrow>segs. real (length (Cluster.customers s))) / n)"
  using assms
  by (induction segs arbitrary: a) (simp_all add: js_length_def add_divide_distrib)

lemma performSegmentAnalysis_percentages:
  "map percentage (performSegmentAnalysis now dateOf custs)
     = map (\<lambda>s. js_div (js_length (Cluster.customers s)) (Num (real (length custs))))
         (filter (\<lambda>s. 0 < length (Cluster.customers s)) (segmentsAfter custs))"
  by (simp add: performSegmentAnalysis_def clusterCustomers_eq js_length_def comp_def)

lemma segmentsAfter_total:
  "(\<Sum>s\<leftarrow>segmentsAfter custs. real (length (Cluster.customers s))) = real (length custs)"
proof -
  have "(\<Sum>s\<leftarrow>segmentsAfter custs. real (length (Cluster.customers s)))
    = real (length (filter (\<lambda>c. assignCustomerSegment c = ''Premium'') custs)
   + length (filter (\<lambda>c. assignCustomerSegment c = ''Gold'') custs)
   + length (filter (\<lambda>c. assignCustomerSegment c = ''Silver'') custs)
   + length (filter (\<lambda>c. assignCustomerSegment c = ''Basic'') custs))"
    by (simp add: segmentsAfter_def)
  then show ?thesis by (simp only: bucket_lengths)
qed

lemma performSegmentAnalysis_buckets:
  "map (\<lambda>a. (SegmentAnalysis.segment a, SegmentAnalysis.customers a, percentage a))
       (performSegmentAnalysis now dateOf custs)
   = map (\<lambda>n. (n, js_length (filter (\<lambda>c. assignCustomerSegment c = n) custs),
               js_div (js_length (filter (\<lambda>c. assignCustomerSegment c = n) custs))
                 (js_length custs)))
       (filter (\<lambda>n. filter (\<lambda>c. assignCustomerSegment c = n) custs \<noteq> [])
          [''Premium'', ''Gold'', ''Silver'', ''Basic''])"
  by (simp add: performSegmentAnalysis_def clusterCustomers_eq segmentsAfter_def comp_def)

text \<open>
  C8. For a non-empty customer list the percentages of the entries that
  \<^verbatim>\<open>performSegmentAnalysis\<close> returns add up to 1 (in exact arithmetic). The entries are those
  of the non-empty buckets among Premium, Gold, Silver, Basic, in this order; the bucket of
  a name holds the customers whose first matching predicate has that name, so every
  customer is in exactly one; and each percentage is the member count over the total.
\<close>

theorem performSegmentAnalysis_percentages_sum:
  assumes "custs \<noteq> []"
  shows "foldl js_add (Num 0) (map percentage (performSegmentAnalysis now dateOf custs)) = Num 1 \<and>
    map (\<lambda>a. (SegmentAnalysis.segment a, SegmentAnalysis.customers a, percentage a))
       (performSegmentAnalysis now dateOf custs)
     = map (\<lambda>n. (n, js_length (filter (\<lambda>c. assignCustomerSegment c = n) custs),
               Num (real (length (filter (\<lambda>c. assignCustomerSegment c = n) custs))
                    / real (length custs))))
       (filter (\<lambda>n. filter (\<lambda>c. assignCustomerSegment c = n) custs \<noteq> [])
          [''Premium'', ''Gold'', ''Silver'', ''Basic''])"
proof -
  from assms have n: "real (length custs) \<noteq> 0" by simp
  have "foldl js_add (Num 0) (map percentage (performSegmentAnalysis now dateOf custs))
      = Num (0 + (\<Sum>s\<leftarrow>segmentsAfter custs. real (length (Cluster.customers s)))
                 / real (length custs))"
    unfolding performSegmentAnalysis_percentages by (rule sum_percentages [OF n])
  also have "\<dots> = Num 1" using n by (simp add: segmentsAfter_total)
  finally have sum:
    "foldl js_add (Num 0) (map percentage (performSegmentAnalysis now dateOf custs)) = Num 1" .
  have "js_div (js_length xs) (js_length custs) = Num (real (length xs) / real (length custs))"
    for xs :: "Customer list"
    using n by (simp add: js_length_def)
  then show ?thesis using sum by (simp only: performSegmentAnalysis_buckets)
qed

text \<open>One Premium and one Basic customer: two entries of one half each.\<close>

theorem performSegmentAnalysis_percentages_sum_witness:
  "[premiumCustomer, basicCustomer] \<noteq> [] \<and>
   foldl js_add (Num 0)
     (map percentage (performSegmentAnalysis 0 (\<lambda>d. NaN) [premiumCustomer, basicCustomer]))
     = Num 1 \<and>
   map percentage (performSegmentAnalysis 0 (\<lambda>d. NaN) [premiumCustomer, basicCustomer])
     = [Num (1 / 2), Num (1 / 2)]"
  using performSegmentAnalysis_percentages_sum [of "[premiumCustomer, basicCustomer]" 0 "\<lambda>d. NaN"]
  by (simp add: performSegmentAnalysis_def clusterCustomers_def initialSegments_def
      premiumCustomer_def basicCustomer_def sampleCustomer_def js_gt_def js_length_def)

section \<open>The empty customer list\<close>

text \<open>
  C5. On the empty customer list the segment analysis, the fraud detection, the
  recommendations (for the segments of that list) and the monthly trends return the empty
  list, the last without throwing; and none of them evaluates a division.
\<close>

theorem aggregates_of_empty_list:
  "performSegmentAnalysis now dateOf [] = [] \<and>
   detectFraudPatterns [] = [] \<and>
   generateRecommendations other dbl [] (performSegmentAnalysis now dateOf []) = [] \<and>
   calculateMonthlyTrends monthOf localeCompare [] = Inr [] \<and>
   performSegmentAnalysis_divisors now dateOf [] = [] \<and>
   detectFraudPatterns_divisors [] = [] \<and>
   generateRecommendations_divisors [] = [] \<and>
   calculateMonthlyTrends_divisors monthOf [] = []"
  by (simp add: performSegmentAnalysis_def clusterCustomers_def initialSegments_def
      detectFraudPatterns_def generateRecommendations_def js_gt_def js_length_def
      calculateMonthlyTrends_def Array_sort_def performSegmentAnalysis_divisors_def
      detectFraudPatterns_divisors_def generateRecommendations_divisors_def
      calculateMonthlyTrends_divisors_def)

section \<open>Recommendations: the risk rule\<close>

lemma risk_threshold:
  "js_gt (Num (real h)) (js_mul (js_length custs) (Num 0.15)) \<longleftrightarrow> 15 * length custs < 100 * h"
proof -
  have "real (length custs) * 0.15 < real h \<longleftrightarrow> real (15 * length custs) < real (100 * h)"
    by (simp add: mult.commute)
  also have "\<dots> \<longleftrightarrow> 15 * length custs < 100 * h" by (rule of_nat_less_iff)
  finally show ?thesis by (simp add: js_gt_def js_length_def)
qed

lemma risk_percentage:
  assumes "15 * length custs < 100 * h" "h \<le> length custs"
  shows "rounded dbl (js_mul (rounded dbl (js_div (Num (real h)) (js_length custs))) (Num 100))
    = rounded dbl (js_mul (dbl (real h / real (length custs))) (Num 100))"
proof -
  from assms have "custs \<noteq> []" by auto
  then show ?thesis by (simp add: js_length_def rounded_def)
qed

lemma risk_rule_filter:
  "filter (\<lambda>r. type r = ''risk_management'') (generateRecommendations other dbl custs segments) =
     (if js_gt (Num (real (length (filter (\<lambda>c. riskCategory c = High) custs))))
            (js_mul (js_length custs) (Num 0.15))
      then [\<lparr> type = ''risk_management'', priority = ''critical'',
              message =
                Number_toString other
                  (Num (real (length (filter (\<lambda>c. riskCategory c = High) custs)))) @
                '' customers ('' @
                toFixed1 other
                  (rounded dbl
                    (js_mul (rounded dbl
                       (js_div (Num (real (length (filter (\<lambda>c. riskCategory c = High) custs))))
                          (js_length custs)))
                     (Num 100))) @
                ''%) are high-risk. Implement stricter monitoring.'' \<rparr>]
      else [])"
  by (simp add: generateRecommendations_def Let_def split: option.split)

text \<open>
  C4. The recommendations hold a \<^verbatim>\<open>risk_management\<close> entry exactly when the number of High
  risk customers is strictly above 15% of the population, that is when
  \<open>15 * total < 100 * high\<close>. The entry is critical, and its message carries the count and,
  with one decimal, the percentage that the engine computes: the quotient \<open>high / total\<close>
  as the runtime rounds it, times 100, rounded again. In a population of 100 the rule
  fires from 16 High risk customers on, and not at 15.
\<close>

theorem generateRecommendations_risk_rule:
  "filter (\<lambda>r. type r = ''risk_management'') (generateRecommendations other dbl custs segments) =
     (if 15 * length custs < 100 * length (filter (\<lambda>c. riskCategory c = High) custs)
      then [\<lparr> type = ''risk_management'', priority = ''critical'',
              message =
                Number_toString other
                  (Num (real (length (filter (\<lambda>c. riskCategory c = High) custs)))) @
                '' customers ('' @
                toFixed1 other
                  (rounded dbl
                    (js_mul (dbl (real (length (filter (\<lambda>c. riskCategory c = High) custs))
                                   / real (length custs)))
                       (Num 100))) @
                ''%) are high-risk. Implement stricter monitoring.'' \<rparr>]
      else []) \<and>
   (length custs = 100 \<longrightarrow>
     ((\<exists>r \<in> set (generateRecommendations other dbl custs segments). type r = ''risk_management'')
        \<longleftrightarrow> 16 \<le> length (filter (\<lambda>c. riskCategory c = High) custs)))"
proof -
  let ?h = "length (filter (\<lambda>c. riskCategory c = High) custs)"
  let ?R = "generateRecommendations other dbl custs segments"
  let ?r = "\<lparr> type = ''risk_management'', priority = ''critical'',
              message = Number_toString other (Num (real ?h)) @ '' customers ('' @
                toFixed1 other
                  (rounded dbl (js_mul (dbl (real ?h / real (length custs))) (Num 100))) @
                ''%) are high-risk. Implement stricter monitoring.'' \<rparr>"
  have le: "?h \<le> length custs" by (rule length_filter_le)
  have flt: "filter (\<lambda>r. type r = ''risk_management'') ?R
      = (if 15 * length custs < 100 * ?h then [?r] else [])"
  proof (cases "15 * length custs < 100 * ?h")
    case True
    then show ?thesis
      unfolding risk_rule_filter risk_threshold by (simp only: risk_percentage [OF True le] if_True)
  next
    case False
    then show ?thesis unfolding risk_rule_filter risk_threshold by (simp only: if_False)
  qed
  have "(\<exists>r \<in> set ?R. type r = ''risk_management'')
      \<longleftrightarrow> filter (\<lambda>r. type r = ''risk_management'') ?R \<noteq> []"
    by (simp add: filter_empty_conv)
  also have "\<dots> \<longleftrightarrow> 15 * length custs < 100 * ?h" unfolding flt by simp
  finally have "(\<exists>r \<in> set ?R. type r = ''risk_management'') \<longleftrightarrow> 16 \<le> ?h"
    if "length custs = 100" using that by auto
  with flt show ?thesis by blast
qed

lemma population_facts:
  "k \<le> 100 \<Longrightarrow> length (population k) = 100"
  "k \<le> 100 \<Longrightarrow> length (filter (\<lambda>c. riskCategory c = High) (population k)) = k"
  by (simp_all add: population_def basicCustomer_def premiumCustomer_def)

text \<open>
  Populations of 100 with 16 and with 15 High risk customers. The quotient 16 / 100 and
  its product with 100 are taken unrounded: the rounded product is 16 as well.
\<close>

theorem generateRecommendations_risk_rule_witness:
  "length (population 16) = 100 \<and>
   length (filter (\<lambda>c. riskCategory c = High) (population 16)) = 16 \<and>
   filter (\<lambda>r. type r = ''risk_management'')
       (generateRecommendations (\<lambda>x. []) Num (population 16) [])
     = [\<lparr> type = ''risk_management'', priority = ''critical'',
          message = ''16 customers (16.0%) are high-risk. Implement stricter monitoring.'' \<rparr>] \<and>
   (\<exists>r \<in> set (generateRecommendations (\<lambda>x. []) Num (population 16) []).
       type r = ''risk_management'') \<and>
   length (population 15) = 100 \<and>
   length (filter (\<lambda>c. riskCategory c = High) (population 15)) = 15 \<and>
   filter (\<lambda>r. type r = ''risk_management'')
       (generateRecommendations (\<lambda>x. []) Num (population 15) []) = [] \<and>
   \<not> (\<exists>r \<in> set (generateRecommendations (\<lambda>x. []) Num (population 15) []).
         type r = ''risk_management'')"
  using generateRecommendations_risk_rule [of "\<lambda>x. []" Num "population 16" "[]"]
    generateRecommendations_risk_rule [of "\<lambda>x. []" Num "population 15" "[]"]
  by (simp add: population_facts Number_toString_def toFixed1_def rounded_def
      string_of_nat.simps digit_def)

section \<open>Fraud detection: the anomaly score\<close>

text \<open>
  C6. The anomaly score should lie between 0 and 1 and a population mean of 0 should add
  nothing to it. \<^verbatim>\<open>calculateAnomalyScore\<close> divides by half the rounded mean without testing
  it, where \<^verbatim>\<open>calculateGrowthRate\<close> does test its divisor, and \<^verbatim>\<open>Math.min\<close> lets NaN through. A
  population of one customer without transactions has mean 0 and the score of that
  customer is NaN. Among three customers with 1, 0 and 0 transactions the rounded mean is
  0, the deviation of the first is infinite, its score is 1, and it is the one that
  \<^verbatim>\<open>detectFraudPatterns\<close> reports, although it differs from the others by one transaction.
\<close>

theorem calculateAnomalyScore_zero_mean:
  "finiteCustomer idleCustomer \<and> finiteCustomer onceCustomer \<and>
   calculateAverage [idleCustomer] (\<lambda>c. NumberV (transactionCount c)) = Num 0 \<and>
   calculateAnomalyScore idleCustomer [idleCustomer] = NaN \<and>
   calculateAverage [onceCustomer, idleCustomer, idleCustomer] (\<lambda>c. NumberV (transactionCount c)) = Num 0 \<and>
   calculateAnomalyScore onceCustomer [onceCustomer, idleCustomer, idleCustomer] = Num 1 \<and>
   detectFraudPatterns [onceCustomer, idleCustomer, idleCustomer] = [onceCustomer]"
  by (simp add: calculateAnomalyScore_def detectFraudPatterns_def calculateAverage_def js_length_def js_sub_def js_gt_def inf_of_sign_def
      idleCustomer_def onceCustomer_def sampleCustomer_def finiteCustomer_def)

end
